theory Spec2Isabelle
  imports Complex_Main
begin

section \<open>Data model\<close>

text \<open>
  Times are instants in nanoseconds since the Unix epoch, durations are nanoseconds;
  \<open>Before\<close> is \<open>Time.Before\<close>. A \<open>Time\<close> of Go keeps a count of seconds since
  the year 1 in 64 signed bits, and \<open>time.Unix\<close> gets it by adding 62135596800 to its
  argument, an addition that wraps: \<open>time_Unix sec nsec\<close> is the instant that results
  (\<open>nsec\<close> within a second, as it is at the one call, where it is 0).
\<close>

type_synonym time = int
type_synonym duration = int

definition wrap64 :: "int \<Rightarrow> int" where
  "wrap64 x = (x + 2 ^ 63) mod 2 ^ 64 - 2 ^ 63"

definition unixToInternal :: int where
  "unixToInternal = 62135596800"

definition time_Unix :: "int \<Rightarrow> int \<Rightarrow> time" where
  "time_Unix sec nsec = (wrap64 (sec + unixToInternal) - unixToInternal) * 1000000000 + nsec"

definition Before :: "time \<Rightarrow> time \<Rightarrow> bool" where
  "Before t u = (t < u)"

text \<open>\<open>Time.Unix()\<close>: the whole seconds of an instant since the Unix epoch.\<close>

definition Unix_seconds :: "time \<Rightarrow> int" where
  "Unix_seconds t = t div 1000000000"

text \<open>
  The conversion \<open>int64(f)\<close> of a float64 (a JSON number is a rational): the number
  truncated toward zero when that fits 64 signed bits. When it does not fit the language
  leaves the result to the implementation; the model takes the result of amd64, the
  least 64-bit integer. \<open>int64_ok f\<close> says that the truncated number fits and that
  \<open>time.Unix\<close> takes it without wrapping, so that the time made of \<open>f\<close> is \<open>f\<close>
  truncated to whole seconds.
\<close>

definition trunc :: "rat \<Rightarrow> int" where
  "trunc f = (if 0 \<le> f then \<lfloor>f\<rfloor> else \<lceil>f\<rceil>)"

definition int64 :: "rat \<Rightarrow> int" where
  "int64 f = (if - (2 ^ 63) \<le> trunc f \<and> trunc f < 2 ^ 63 then trunc f else - (2 ^ 63))"

definition int64_ok :: "rat \<Rightarrow> bool" where
  "int64_ok f = (- (2 ^ 63) \<le> trunc f \<and> trunc f + 62135596800 < 2 ^ 63)"

text \<open>A pointer to the facade, as held by a Challenge (a non-owning back-reference).\<close>

type_synonym IDP_ref = nat

text \<open>
  Modelled from the spec: the Challenge struct is declared in another file of the
  package than idp.go. Its fields are the ones of section 3 of the spec, which are the
  ones \<open>NewChallenge\<close> assigns; \<open>c_idp\<close> is the unexported field \<open>idp\<close>, the
  back-reference (\<open>None\<close> is the nil pointer).
\<close>

record Challenge =
  Client :: string
  Redirect :: string
  User :: string
  Scopes :: "string list"
  Expires :: time
  c_idp :: "IDP_ref option"

record rsa_PublicKey =
  rsa_N :: nat
  rsa_E :: nat

record rsa_PrivateKey =
  rsa_Public :: rsa_PublicKey
  rsa_D :: nat

text \<open>
  Dynamic values (Go's \<open>interface{}\<close>) with the dynamic types that occur: decoded JSON
  (nil, float64, string, bool, \<open>[]interface{}\<close>, \<open>map[string]interface{}\<close>), key
  pointers, and \<open>*Challenge\<close>. A pointer is \<open>None\<close> when it is a typed nil.
\<close>

datatype iface =
    VNil
  | VFloat64 rat
  | VString string
  | VBool bool
  | VSlice "iface list"
  | VMap "(string \<times> iface) list"
  | RSAPublicKeyPtr "rsa_PublicKey option"
  | RSAPrivateKeyPtr "rsa_PrivateKey option"
  | ECDSAPublicKeyPtr nat
  | ECDSAPrivateKeyPtr nat
  | ChallengePtr "Challenge option"

text \<open>
  Modelled from the spec: the error values of the package (\<open>ErrorNoKey\<close> and the
  others, section 7 of the spec) are declared in another file of the package than
  idp.go; they are distinct values. \<open>Errorf\<close>
  is \<open>fmt.Errorf\<close> with its format and arguments, \<open>LibError\<close> an error of one of
  the libraries with its message (transport, decoding, signature verification), and
  \<open>ValidationError\<close> the error of the token parser, with the error it wraps and the
  flags it has set.
\<close>

datatype vflag =
    ValidationErrorMalformed
  | ValidationErrorUnverifiable
  | ValidationErrorSignatureInvalid
  | ValidationErrorExpired
  | ValidationErrorIssuedAt
  | ValidationErrorNotValidYet

datatype error =
    ErrorAuthenticationFailure
  | ErrorNoKey
  | ErrorBadKey
  | ErrorBadRequest
  | ErrorChallengeExpired
  | ErrorBadChallengeCookie
  | Errorf string "iface list"
  | LibError string
  | ValidationError "error option" "vflag list"

text \<open>A call either returns its results or panics with a run-time error.\<close>

datatype panic = NilPointerDereference | IndexOutOfRange | InterfaceConversion

datatype 'a exec = Done 'a | Panic panic

subsection \<open>The libraries' data\<close>

datatype SigningMethod =
    SigningMethodRSA string
  | SigningMethodRSAPSS string
  | SigningMethodHMAC string
  | SigningMethodECDSA string
  | SigningMethodNone

text \<open>A parsed token; \<open>jwt.Parse\<close> gives its claims as a \<open>jwt.MapClaims\<close>.\<close>

record jwt_Token =
  Raw :: string
  Method :: SigningMethod
  Header :: "string \<rightharpoonup> iface"
  Claims :: "string \<rightharpoonup> iface"
  Signature :: string
  Valid :: bool

text \<open>
  A decoded key document: the keys of a key set (each a pointer, \<open>None\<close> when nil) and,
  for a single key, its type and its material, which is kept abstract as a number.
\<close>

datatype gojwk_Key = Key (Keys: "gojwk_Key option list") (Kty: string) (Material: nat)

record clientcredentials_Config =
  cc_ClientID :: string
  cc_ClientSecret :: string
  cc_TokenURL :: string
  cc_Scopes :: "string list"

text \<open>The client that \<open>credentials.Client\<close> builds carries the credentials.\<close>

datatype http_Client = OAuth2Client clientcredentials_Config

text \<open>A response; its body either reads to the end or fails while being read.\<close>

record http_Response =
  StatusCode :: nat
  Body :: "error + string"

definition ioutil_ReadAll :: "error + string \<Rightarrow> error + string" where
  "ioutil_ReadAll b = b"

record http_Request =
  Form :: "string \<rightharpoonup> string list"
  Cookies :: "string \<rightharpoonup> string"

definition FormValue :: "http_Request \<Rightarrow> string \<Rightarrow> string" where
  "FormValue r key = (case Form r key of Some (v # vs) \<Rightarrow> v | _ \<Rightarrow> [])"

record sessions_Session =
  Values :: "iface \<rightharpoonup> iface"

subsection \<open>The key cache\<close>

text \<open>
  Modelled from the spec: the cache is a library that idp.go imports. Its contract
  (section 4.1 of the spec, and the library's documentation): \<open>Set\<close> stores or replaces
  an entry, with expiry \<open>now + d\<close> when the duration is positive and none otherwise, the
  default duration standing for the one given at construction; \<open>Get\<close> finds an entry
  that has not expired; the sweep removes the expired entries and hands each to the
  eviction handler; \<open>Flush\<close> empties the cache. An \<open>Expiration\<close> of 0 is no expiry.
\<close>

record Item =
  Object :: iface
  Expiration :: int

record Cache =
  defaultExpiration :: duration
  items :: "string \<rightharpoonup> Item"

definition cache_DefaultExpiration :: duration where
  "cache_DefaultExpiration = 0"

definition cache_New :: "duration \<Rightarrow> duration \<Rightarrow> Cache" where
  "cache_New de ci = \<lparr>defaultExpiration = (if de = 0 then - 1 else de), items = Map.empty\<rparr>"

definition cache_Set :: "Cache \<Rightarrow> time \<Rightarrow> string \<Rightarrow> iface \<Rightarrow> duration \<Rightarrow> Cache" where
  "cache_Set c now k x d =
     (let d' = (if d = cache_DefaultExpiration then defaultExpiration c else d);
          e = (if 0 < d' then now + d' else 0)
      in c\<lparr>items := (items c)(k \<mapsto> \<lparr>Object = x, Expiration = e\<rparr>)\<rparr>)"

definition item_Expired :: "Item \<Rightarrow> time \<Rightarrow> bool" where
  "item_Expired it now = (0 < Expiration it \<and> Expiration it < now)"

definition cache_Get :: "Cache \<Rightarrow> time \<Rightarrow> string \<Rightarrow> iface option" where
  "cache_Get c now k =
     (case items c k of
        None \<Rightarrow> None
      | Some it \<Rightarrow> if item_Expired it now then None else Some (Object it))"

definition cache_DeleteExpired :: "Cache \<Rightarrow> time \<Rightarrow> Cache" where
  "cache_DeleteExpired c now =
     c\<lparr>items := (\<lambda>k. case items c k of
                        None \<Rightarrow> None
                      | Some it \<Rightarrow> if item_Expired it now then None else Some it)\<rparr>"

definition cache_Evicted :: "Cache \<Rightarrow> time \<Rightarrow> string \<Rightarrow> bool" where
  "cache_Evicted c now k =
     (case items c k of None \<Rightarrow> False | Some it \<Rightarrow> item_Expired it now)"

definition cache_Flush :: "Cache \<Rightarrow> Cache" where
  "cache_Flush c = c\<lparr>items := Map.empty\<rparr>"

subsection \<open>The facade and what surrounds it\<close>

record IDPConfig =
  ClientID :: string
  ClientSecret :: string
  HydraAddress :: string
  KeyCacheExpiration :: duration
  KeyCacheCleanupInterval :: duration
  ChallengeStore :: "http_Request \<Rightarrow> string \<Rightarrow> sessions_Session \<times> error option"

record IDP =
  config :: IDPConfig
  client :: "http_Client option"
  keyCache :: Cache

text \<open>
  What the code takes from outside: the session cookie's name (a constant of the package
  declared elsewhere), the token parser, the token endpoint, the key-publishing endpoint
  and the key decoders. Each is a parameter; \<open>jwt_Parse\<close> returns Go's pair of a
  token and an error and is given the key function of the caller (a panic of the key
  function, or of the parser, is a panic of the call).
\<close>

record env =
  SessionCookieName :: string
  jwt_Parse :: "string \<Rightarrow> (jwt_Token \<Rightarrow> (iface \<times> error option) exec)
                  \<Rightarrow> (jwt_Token option \<times> error option) exec"
  credentials_Token :: "clientcredentials_Config \<Rightarrow> error + string"
  http_Get :: "http_Client \<Rightarrow> string \<Rightarrow> error + http_Response"
  gojwk_Unmarshal :: "string \<Rightarrow> error + gojwk_Key"
  DecodePublicKey :: "gojwk_Key \<Rightarrow> error + iface"
  DecodePrivateKey :: "gojwk_Key \<Rightarrow> error + iface"

section \<open>The operations of idp.go\<close>

definition VerifyPublicKey :: string where
  "VerifyPublicKey = ''VerifyPublic''"

definition ConsentPrivateKey :: string where
  "ConsentPrivateKey = ''ConsentPrivate''"

definition NewIDP :: "IDPConfig \<Rightarrow> IDP" where
  "NewIDP cfg =
     \<lparr>config = cfg, client = None,
      keyCache = cache_New (KeyCacheExpiration cfg) (KeyCacheCleanupInterval cfg)\<rparr>"

definition getKey :: "env \<Rightarrow> IDP \<Rightarrow> string \<Rightarrow> string \<Rightarrow> (gojwk_Key option \<times> error option) exec" where
  "getKey E idp set' kind =
     (let url = HydraAddress (config idp) @ ''/keys/'' @ set' @ ''/'' @ kind in
      case client idp of
        None \<Rightarrow> Panic NilPointerDereference
      | Some c \<Rightarrow>
          (case http_Get E c url of
             Inl err \<Rightarrow> Done (None, Some err)
           | Inr resp \<Rightarrow>
               (case ioutil_ReadAll (Body resp) of
                  Inl err \<Rightarrow> Done (None, Some err)
                | Inr body \<Rightarrow>
                    (case gojwk_Unmarshal E body of
                       Inl err \<Rightarrow> Done (None, Some err)
                     | Inr key \<Rightarrow>
                         (case Keys key of
                            [] \<Rightarrow> Panic IndexOutOfRange
                          | k # ks \<Rightarrow> Done (k, None))))))"

definition getVerificationKey :: "env \<Rightarrow> IDP \<Rightarrow> (rsa_PublicKey option \<times> error option) exec" where
  "getVerificationKey E idp =
     (case getKey E idp ''consent.challenge'' ''public'' of
        Panic p \<Rightarrow> Panic p
      | Done (jwk, Some err) \<Rightarrow> Done (None, Some err)
      | Done (None, None) \<Rightarrow> Panic NilPointerDereference
      | Done (Some jwk, None) \<Rightarrow>
          (case DecodePublicKey E jwk of
             Inl err \<Rightarrow> Done (None, Some err)
           | Inr key \<Rightarrow>
               (case key of
                  RSAPublicKeyPtr k \<Rightarrow> Done (k, None)
                | _ \<Rightarrow> Panic InterfaceConversion)))"

definition getConsentKey :: "env \<Rightarrow> IDP \<Rightarrow> (rsa_PrivateKey option \<times> error option) exec" where
  "getConsentKey E idp =
     (case getKey E idp ''consent.endpoint'' ''private'' of
        Panic p \<Rightarrow> Panic p
      | Done (jwk, Some err) \<Rightarrow> Done (None, Some err)
      | Done (None, None) \<Rightarrow> Panic NilPointerDereference
      | Done (Some jwk, None) \<Rightarrow>
          (case DecodePrivateKey E jwk of
             Inl err \<Rightarrow> Done (None, Some err)
           | Inr key \<Rightarrow>
               (case key of
                  RSAPrivateKeyPtr k \<Rightarrow> Done (k, None)
                | _ \<Rightarrow> Panic InterfaceConversion)))"

text \<open>
  The handler that \<open>NewIDP\<close> registers for evictions calls \<open>refreshKeyCache\<close> with the
  evicted key; the evicted value is not used.
\<close>

definition refreshKeyCache :: "env \<Rightarrow> IDP \<Rightarrow> time \<Rightarrow> string \<Rightarrow> IDP exec" where
  "refreshKeyCache E idp now key =
     (if key = VerifyPublicKey then
        (case getVerificationKey E idp of
           Panic p \<Rightarrow> Panic p
         | Done (verifyKey, Some err) \<Rightarrow> Done idp
         | Done (verifyKey, None) \<Rightarrow>
             Done (idp\<lparr>keyCache := cache_Set (keyCache idp) now VerifyPublicKey
                                      (RSAPublicKeyPtr verifyKey) cache_DefaultExpiration\<rparr>))
      else if key = ConsentPrivateKey then
        (case getConsentKey E idp of
           Panic p \<Rightarrow> Panic p
         | Done (consentKey, Some err) \<Rightarrow> Done idp
         | Done (consentKey, None) \<Rightarrow>
             Done (idp\<lparr>keyCache := cache_Set (keyCache idp) now ConsentPrivateKey
                                      (RSAPrivateKeyPtr consentKey) cache_DefaultExpiration\<rparr>))
      else Done idp)"

definition onEvicted :: "env \<Rightarrow> IDP \<Rightarrow> time \<Rightarrow> string \<Rightarrow> iface \<Rightarrow> IDP exec" where
  "onEvicted E idp now key value = refreshKeyCache E idp now key"

definition login :: "env \<Rightarrow> IDP \<Rightarrow> IDP \<times> error option" where
  "login E idp =
     (let credentials =
            \<lparr>cc_ClientID = ClientID (config idp),
             cc_ClientSecret = ClientSecret (config idp),
             cc_TokenURL = HydraAddress (config idp) @ ''/oauth2/token'',
             cc_Scopes = [''core'', ''hydra.keys.get'']\<rparr>
      in case credentials_Token E credentials of
           Inl err \<Rightarrow> (idp, Some err)
         | Inr tok \<Rightarrow> (idp\<lparr>client := Some (OAuth2Client credentials)\<rparr>, None))"

definition Connect :: "env \<Rightarrow> IDP \<Rightarrow> time \<Rightarrow> (IDP \<times> error option) exec" where
  "Connect E idp now =
     (case login E idp of
        (idp1, Some err) \<Rightarrow> Done (idp1, Some err)
      | (idp1, None) \<Rightarrow>
          (case getVerificationKey E idp1 of
             Panic p \<Rightarrow> Panic p
           | Done (verifyKey, Some err) \<Rightarrow> Done (idp1, Some err)
           | Done (verifyKey, None) \<Rightarrow>
               (case getConsentKey E idp1 of
                  Panic p \<Rightarrow> Panic p
                | Done (consentKey, Some err) \<Rightarrow> Done (idp1, Some err)
                | Done (consentKey, None) \<Rightarrow>
                    (let c1 = cache_Set (keyCache idp1) now VerifyPublicKey
                                (RSAPublicKeyPtr verifyKey) cache_DefaultExpiration;
                         c2 = cache_Set c1 now ConsentPrivateKey
                                (RSAPrivateKeyPtr consentKey) cache_DefaultExpiration
                     in Done (idp1\<lparr>keyCache := c2\<rparr>, None)))))"

definition GetConsentKey :: "IDP \<Rightarrow> time \<Rightarrow> (rsa_PrivateKey option \<times> error option) exec" where
  "GetConsentKey idp now =
     (case cache_Get (keyCache idp) now ConsentPrivateKey of
        None \<Rightarrow> Done (None, Some ErrorNoKey)
      | Some data \<Rightarrow>
          (case data of
             RSAPrivateKeyPtr key \<Rightarrow> Done (key, None)
           | _ \<Rightarrow> Done (None, Some ErrorBadKey)))"

definition GetVerificationKey :: "IDP \<Rightarrow> time \<Rightarrow> (rsa_PublicKey option \<times> error option) exec" where
  "GetVerificationKey idp now =
     (case cache_Get (keyCache idp) now VerifyPublicKey of
        None \<Rightarrow> Done (None, Some ErrorNoKey)
      | Some data \<Rightarrow>
          (case data of
             RSAPublicKeyPtr key \<Rightarrow> Done (key, None)
           | _ \<Rightarrow> Done (None, Some ErrorBadKey)))"

text \<open>
  The key function that \<open>getChallengeToken\<close> hands to the parser: it refuses every
  signing method but RSA and otherwise reads the verification key from the cache.
\<close>

definition keyFunc :: "IDP \<Rightarrow> time \<Rightarrow> jwt_Token \<Rightarrow> (iface \<times> error option) exec" where
  "keyFunc idp now token =
     (case Method token of
        SigningMethodRSA a \<Rightarrow>
          (case GetVerificationKey idp now of
             Panic p \<Rightarrow> Panic p
           | Done (key, err) \<Rightarrow> Done (RSAPublicKeyPtr key, err))
      | _ \<Rightarrow>
          Done (VNil, Some (Errorf ''Unexpected signing method: %v''
                              [case Header token ''alg'' of None \<Rightarrow> VNil | Some a \<Rightarrow> a])))"

definition getChallengeToken :: "env \<Rightarrow> IDP \<Rightarrow> time \<Rightarrow> string \<Rightarrow> (jwt_Token option \<times> error option) exec" where
  "getChallengeToken E idp now challengeString =
     (case jwt_Parse E challengeString (keyFunc idp now) of
        Panic p \<Rightarrow> Panic p
      | Done (token, Some err) \<Rightarrow> Done (None, Some err)
      | Done (None, None) \<Rightarrow> Panic NilPointerDereference
      | Done (Some token, None) \<Rightarrow>
          if \<not> Valid token then Done (None, Some (Errorf ''Empty token'' []))
          else Done (Some token, None))"

text \<open>The loop of \<open>NewChallenge\<close> over the scopes: each element is asserted a string.\<close>

fun scopeStrings :: "iface list \<Rightarrow> string list exec" where
  "scopeStrings [] = Done []"
| "scopeStrings (scope # scopes) =
     (case scope of
        VString s \<Rightarrow>
          (case scopeStrings scopes of
             Panic p \<Rightarrow> Panic p
           | Done ss \<Rightarrow> Done (s # ss))
      | _ \<Rightarrow> Panic InterfaceConversion)"

definition NewChallenge ::
  "env \<Rightarrow> IDP_ref \<Rightarrow> IDP \<Rightarrow> time \<Rightarrow> http_Request \<Rightarrow> string \<Rightarrow> (Challenge option \<times> error option) exec" where
  "NewChallenge E this idp now r user =
     (let tokenStr = FormValue r ''challenge'' in
      if tokenStr = [] then Done (None, Some ErrorBadRequest)
      else
        case getChallengeToken E idp now tokenStr of
          Panic p \<Rightarrow> Panic p
        | Done (token, Some err) \<Rightarrow> Done (None, Some err)
        | Done (None, None) \<Rightarrow> Panic NilPointerDereference
        | Done (Some token, None) \<Rightarrow>
            (let claims = Claims token in
             case claims ''exp'' of
               Some (VFloat64 f) \<Rightarrow>
                 (let expires = time_Unix (int64 f) 0 in
                  if Before expires now then Done (None, Some ErrorChallengeExpired)
                  else
                    case claims ''aud'' of
                      Some (VString aud) \<Rightarrow>
                        (case claims ''redir'' of
                           Some (VString redir) \<Rightarrow>
                             (case claims ''scp'' of
                                Some (VSlice scopes) \<Rightarrow>
                                  (case scopeStrings scopes of
                                     Panic p \<Rightarrow> Panic p
                                   | Done ss \<Rightarrow>
                                       Done (Some \<lparr>Client = aud, Redirect = redir,
                                                   User = user, Scopes = ss,
                                                   Expires = expires,
                                                   c_idp = Some this\<rparr>, None))
                              | _ \<Rightarrow> Panic InterfaceConversion)
                         | _ \<Rightarrow> Panic InterfaceConversion)
                    | _ \<Rightarrow> Panic InterfaceConversion)
             | _ \<Rightarrow> Panic InterfaceConversion))"

text \<open>
  \<open>GetChallenge\<close> sets the back-reference of the stored Challenge and returns the
  pointer to it; the model returns the Challenge with the field set.
\<close>

definition GetChallenge ::
  "env \<Rightarrow> IDP_ref \<Rightarrow> IDP \<Rightarrow> time \<Rightarrow> http_Request \<Rightarrow> (Challenge option \<times> error option) exec" where
  "GetChallenge E this idp now r =
     (case ChallengeStore (config idp) r (SessionCookieName E) of
        (session, Some err) \<Rightarrow> Done (None, Some err)
      | (session, None) \<Rightarrow>
          (case Values session (VString (SessionCookieName E)) of
             Some (ChallengePtr p) \<Rightarrow>
               (case p of
                  None \<Rightarrow> Panic NilPointerDereference
                | Some challenge \<Rightarrow>
                    if Before (Expires challenge) now
                    then Done (None, Some ErrorChallengeExpired)
                    else Done (Some (challenge\<lparr>c_idp := Some this\<rparr>), None))
           | _ \<Rightarrow> Done (None, Some ErrorBadChallengeCookie)))"

definition Close :: "IDP \<Rightarrow> IDP" where
  "Close idp = idp\<lparr>client := None, keyCache := cache_Flush (keyCache idp)\<rparr>"

section \<open>A concrete deployment, for evaluating the operations\<close>

text \<open>
  An authorization server with one key pair for challenges and one for consents, the
  token parser with a few token strings it can decode, and a session store with a few
  sessions.
\<close>

definition hydra_public :: rsa_PublicKey where
  "hydra_public = \<lparr>rsa_N = 3233, rsa_E = 17\<rparr>"

definition other_public :: rsa_PublicKey where
  "other_public = \<lparr>rsa_N = 2773, rsa_E = 17\<rparr>"

definition hydra_private :: rsa_PrivateKey where
  "hydra_private = \<lparr>rsa_Public = \<lparr>rsa_N = 8633, rsa_E = 5\<rparr>, rsa_D = 1685\<rparr>"

definition now0 :: time where
  "now0 = time_Unix 1000 0"

definition now1 :: time where
  "now1 = time_Unix 1000 200000000"

definition sample_claims :: "iface option \<Rightarrow> iface option \<Rightarrow> string \<rightharpoonup> iface" where
  "sample_claims ex au =
     (\<lambda>k. if k = ''exp'' then ex
          else if k = ''aud'' then au
          else if k = ''redir'' then Some (VString ''https://app.example/cb'')
          else if k = ''scp'' then Some (VSlice [VString ''openid'', VString ''profile''])
          else None)"

definition sample_token :: "string \<Rightarrow> iface option \<Rightarrow> iface option \<Rightarrow> jwt_Token" where
  "sample_token s ex au =
     \<lparr>Raw = s, Method = SigningMethodRSA ''RS256'',
      Header = [''alg'' \<mapsto> VString ''RS256''],
      Claims = sample_claims ex au, Signature = [], Valid = False\<rparr>"

definition sample_decode :: "string \<rightharpoonup> jwt_Token \<times> rsa_PublicKey" where
  "sample_decode s =
     (if s = ''good'' then
        Some (sample_token s (Some (VFloat64 1300)) (Some (VString ''app-1'')), hydra_public)
      else if s = ''stale'' then
        Some (sample_token s (Some (VFloat64 700)) (Some (VString ''app-1'')), hydra_public)
      else if s = ''forged'' then
        Some (sample_token s (Some (VFloat64 700)) (Some (VString ''app-1'')), other_public)
      else if s = ''edge'' then
        Some (sample_token s (Some (VFloat64 1000)) (Some (VString ''app-1'')), hydra_public)
      else if s = ''noaud'' then
        Some (sample_token s (Some (VFloat64 1300)) None, hydra_public)
      else if s = ''noexp'' then
        Some (sample_token s None (Some (VString ''app-1'')), hydra_public)
      else if s = ''textexp'' then
        Some (sample_token s (Some (VString ''1300'')) (Some (VString ''app-1'')), hydra_public)
      else if s = ''half'' then
        Some (sample_token s (Some (VFloat64 (2001 / 2))) (Some (VString ''app-1'')), hydra_public)
      else if s = ''zero'' then
        Some (sample_token s (Some (VFloat64 0)) (Some (VString ''app-1'')), hydra_public)
      else if s = ''far'' then
        Some (sample_token s (Some (VFloat64 9223372036854774784)) (Some (VString ''app-1'')),
              hydra_public)
      else None)"

text \<open>
  The parser of the deployment does what \<open>Parse\<close> of the token library (version 3)
  does with a token of three segments signed with RSA, at the time \<open>t\<close> of the call.
  It decodes the token; asks the key function for the key, and wraps an error of the key
  function; validates the claims \<open>exp\<close>, \<open>iat\<close> and \<open>nbf\<close> against the whole
  seconds of the current time, each only when it is a number (a claim of 0 counts as
  absent); verifies the signature with the key, which succeeds when the key is the
  public half of the one that signed the token; and returns the token marked valid when
  nothing failed, and otherwise the token with a validation error that carries the
  flags of all failures and the last error.
\<close>

definition verifyExp :: "int \<Rightarrow> int \<Rightarrow> bool \<Rightarrow> bool" where
  "verifyExp ex now required = (if ex = 0 then \<not> required else now \<le> ex)"

definition verifyIat :: "int \<Rightarrow> int \<Rightarrow> bool \<Rightarrow> bool" where
  "verifyIat iat now required = (if iat = 0 then \<not> required else iat \<le> now)"

definition verifyNbf :: "int \<Rightarrow> int \<Rightarrow> bool \<Rightarrow> bool" where
  "verifyNbf nbf now required = (if nbf = 0 then \<not> required else nbf \<le> now)"

definition verifyClaim :: "(int \<Rightarrow> int \<Rightarrow> bool \<Rightarrow> bool) \<Rightarrow> iface option \<Rightarrow> int \<Rightarrow> bool \<Rightarrow> bool" where
  "verifyClaim verify v cmp req =
     (case v of Some (VFloat64 f) \<Rightarrow> verify (int64 f) cmp req | _ \<Rightarrow> \<not> req)"

definition claimFailure ::
  "bool \<Rightarrow> string \<Rightarrow> vflag \<Rightarrow> error option \<times> vflag list \<Rightarrow> error option \<times> vflag list" where
  "claimFailure ok msg flag vErr =
     (if ok then vErr else (Some (LibError msg), snd vErr @ [flag]))"

definition MapClaims_Valid :: "(string \<rightharpoonup> iface) \<Rightarrow> time \<Rightarrow> error option \<times> vflag list" where
  "MapClaims_Valid m t =
     (let now = Unix_seconds t in
      claimFailure (verifyClaim verifyNbf (m ''nbf'') now False)
        ''Token is not valid yet'' ValidationErrorNotValidYet
        (claimFailure (verifyClaim verifyIat (m ''iat'') now False)
           ''Token used before issued'' ValidationErrorIssuedAt
           (claimFailure (verifyClaim verifyExp (m ''exp'') now False)
              ''Token is expired'' ValidationErrorExpired (None, []))))"

definition verified :: "jwt_Token \<Rightarrow> jwt_Token" where
  "verified tok = tok\<lparr>Valid := True\<rparr>"

definition sample_Parse ::
  "time \<Rightarrow> string \<Rightarrow> (jwt_Token \<Rightarrow> (iface \<times> error option) exec)
     \<Rightarrow> (jwt_Token option \<times> error option) exec" where
  "sample_Parse t s kf =
     (case sample_decode s of
        None \<Rightarrow>
          Done (None, Some (ValidationError
                              (Some (LibError ''token contains an invalid number of segments''))
                              [ValidationErrorMalformed]))
      | Some (tok, signer) \<Rightarrow>
          (case kf tok of
             Panic p \<Rightarrow> Panic p
           | Done (key, Some err) \<Rightarrow>
               Done (Some tok, Some (ValidationError (Some err) [ValidationErrorUnverifiable]))
           | Done (key, None) \<Rightarrow>
               (case MapClaims_Valid (Claims tok) t of
                  (inner, flags) \<Rightarrow>
                    (case key of
                       RSAPublicKeyPtr None \<Rightarrow> Panic NilPointerDereference
                     | RSAPublicKeyPtr (Some k) \<Rightarrow>
                         if k = signer then
                           (if flags = [] then Done (Some (verified tok), None)
                            else Done (Some tok, Some (ValidationError inner flags)))
                         else
                           Done (Some tok,
                                 Some (ValidationError
                                         (Some (LibError ''crypto/rsa: verification error''))
                                         (flags @ [ValidationErrorSignatureInvalid])))
                     | _ \<Rightarrow>
                         Done (Some tok,
                               Some (ValidationError (Some (LibError ''key is of invalid type''))
                                       (flags @ [ValidationErrorSignatureInvalid])))))))"

text \<open>
  The key-publishing endpoint of the deployment answers by URL; \<open>ep\<close> says what the
  server has under each key set: a document, or nothing it can be reached for.
\<close>

definition sample_Unmarshal :: "string \<Rightarrow> error + gojwk_Key" where
  "sample_Unmarshal body =
     (if body = ''public key set'' then Inr (Key [Some (Key [] ''RSA'' 3233)] [] 0)
      else if body = ''private key set'' then Inr (Key [Some (Key [] ''RSA'' 8633)] [] 0)
      else if body = ''empty key set'' then Inr (Key [] [] 0)
      else Inl (LibError ''invalid character''))"

definition sample_DecodePublicKey :: "gojwk_Key \<Rightarrow> error + iface" where
  "sample_DecodePublicKey k =
     (if Kty k = ''RSA'' then Inr (RSAPublicKeyPtr (Some \<lparr>rsa_N = Material k, rsa_E = 17\<rparr>))
      else if Kty k = ''EC'' then Inr (ECDSAPublicKeyPtr (Material k))
      else Inl (LibError ''Unknown JWK key type''))"

definition sample_DecodePrivateKey :: "gojwk_Key \<Rightarrow> error + iface" where
  "sample_DecodePrivateKey k =
     (if Kty k = ''RSA'' then
        Inr (RSAPrivateKeyPtr (Some \<lparr>rsa_Public = \<lparr>rsa_N = Material k, rsa_E = 5\<rparr>, rsa_D = 1685\<rparr>))
      else if Kty k = ''EC'' then Inr (ECDSAPrivateKeyPtr (Material k))
      else Inl (LibError ''Unknown JWK key type''))"

definition sample_Get :: "string \<Rightarrow> string \<Rightarrow> http_Client \<Rightarrow> string \<Rightarrow> error + http_Response" where
  "sample_Get pub priv c url =
     (if url = ''https://hydra/keys/consent.challenge/public'' then
        (if pub = [] then Inl (LibError ''connection refused'')
         else Inr \<lparr>StatusCode = 200, Body = Inr pub\<rparr>)
      else if url = ''https://hydra/keys/consent.endpoint/private'' then
        (if priv = [] then Inl (LibError ''connection refused'')
         else Inr \<lparr>StatusCode = 200, Body = Inr priv\<rparr>)
      else Inr \<lparr>StatusCode = 404, Body = Inr ''not found''\<rparr>)"

definition sample_env_at :: "time \<Rightarrow> string \<Rightarrow> string \<Rightarrow> env" where
  "sample_env_at t pub priv =
     \<lparr>SessionCookieName = ''challenge'',
      jwt_Parse = sample_Parse t,
      credentials_Token = (\<lambda>c. Inr ''access token''),
      http_Get = sample_Get pub priv,
      gojwk_Unmarshal = sample_Unmarshal,
      DecodePublicKey = sample_DecodePublicKey,
      DecodePrivateKey = sample_DecodePrivateKey\<rparr>"

text \<open>The deployment at the time 1000 s, at which most calls below are made.\<close>

definition sample_env :: "string \<Rightarrow> string \<Rightarrow> env" where
  "sample_env pub priv = sample_env_at now0 pub priv"

definition sample_challenge :: "time \<Rightarrow> IDP_ref option \<Rightarrow> Challenge" where
  "sample_challenge t ref =
     \<lparr>Client = ''app-1'', Redirect = ''https://app.example/cb'', User = ''alice'',
      Scopes = [''openid'', ''profile''], Expires = t, c_idp = ref\<rparr>"

definition no_session :: sessions_Session where
  "no_session = \<lparr>Values = Map.empty\<rparr>"

definition session_with :: "string \<Rightarrow> iface \<Rightarrow> sessions_Session" where
  "session_with name v = \<lparr>Values = [VString name \<mapsto> v]\<rparr>"

definition sample_Store :: "http_Request \<Rightarrow> string \<Rightarrow> sessions_Session \<times> error option" where
  "sample_Store r name =
     (case Cookies r name of
        None \<Rightarrow> (no_session, None)
      | Some v \<Rightarrow>
          if v = ''fresh'' then
            (session_with name (ChallengePtr (Some (sample_challenge (time_Unix 1300 0) None))), None)
          else if v = ''stale'' then
            (session_with name (ChallengePtr (Some (sample_challenge (time_Unix 700 0) None))), None)
          else if v = ''edge'' then
            (session_with name (ChallengePtr (Some (sample_challenge (time_Unix 1000 0) None))), None)
          else if v = ''text'' then
            (session_with name (VString ''not a challenge''), None)
          else (no_session, Some (LibError ''securecookie: the value is not valid'')))"

definition sample_config :: IDPConfig where
  "sample_config =
     \<lparr>ClientID = ''idp'', ClientSecret = ''secret'', HydraAddress = ''https://hydra'',
      KeyCacheExpiration = 600000000000, KeyCacheCleanupInterval = 60000000000,
      ChallengeStore = sample_Store\<rparr>"

text \<open>The facade after a successful \<open>Connect\<close> at time 900 s, and a request.\<close>

definition sample_cache :: Cache where
  "sample_cache =
     cache_Set
       (cache_Set (keyCache (NewIDP sample_config)) (time_Unix 900 0) VerifyPublicKey
          (RSAPublicKeyPtr (Some hydra_public)) cache_DefaultExpiration)
       (time_Unix 900 0) ConsentPrivateKey
       (RSAPrivateKeyPtr (Some hydra_private)) cache_DefaultExpiration"

definition sample_client :: http_Client where
  "sample_client =
     OAuth2Client \<lparr>cc_ClientID = ''idp'', cc_ClientSecret = ''secret'',
                   cc_TokenURL = ''https://hydra/oauth2/token'',
                   cc_Scopes = [''core'', ''hydra.keys.get'']\<rparr>"

definition sample_idp :: IDP where
  "sample_idp = \<lparr>config = sample_config, client = Some sample_client, keyCache = sample_cache\<rparr>"

text \<open>The facade after \<open>login\<close> alone, and after the sweep at 2000 s removed both keys.\<close>

definition fresh_idp :: IDP where
  "fresh_idp = sample_idp\<lparr>keyCache := keyCache (NewIDP sample_config)\<rparr>"

definition swept_idp :: IDP where
  "swept_idp = sample_idp\<lparr>keyCache := cache_DeleteExpired sample_cache (time_Unix 2000 0)\<rparr>"

definition token_request :: "string \<Rightarrow> http_Request" where
  "token_request s = \<lparr>Form = [''challenge'' \<mapsto> [s]], Cookies = Map.empty\<rparr>"

definition cookie_request :: "string \<Rightarrow> http_Request" where
  "cookie_request v = \<lparr>Form = Map.empty, Cookies = [''challenge'' \<mapsto> v]\<rparr>"

definition empty_request :: http_Request where
  "empty_request = \<lparr>Form = Map.empty, Cookies = Map.empty\<rparr>"

section \<open>Evaluating the concrete deployment\<close>

lemmas time_defs = time_Unix_def wrap64_def unixToInternal_def

lemma time_Unix_exact:
  assumes "- (2 ^ 63) \<le> sec" and "sec + 62135596800 < 2 ^ 63"
  shows "time_Unix sec nsec = sec * 1000000000 + nsec"
proof -
  have "(sec + 62135596800 + 2 ^ 63) mod 2 ^ 64 = sec + 62135596800 + 2 ^ 63"
    using assms by (intro mod_pos_pos_trivial) simp_all
  then show ?thesis
    by (simp add: time_defs)
qed

lemma int64_exact: "int64_ok f \<Longrightarrow> int64 f = trunc f"
  by (simp add: int64_ok_def int64_def)

lemma time_of_exp: "int64_ok f \<Longrightarrow> time_Unix (int64 f) 0 = trunc f * 1000000000"
  by (simp add: int64_exact time_Unix_exact int64_ok_def)


lemma sample_clock: "now0 = 1000000000000" "now1 = 1000200000000"
  by (simp_all add: now0_def now1_def time_defs)

lemma sample_seconds: "Unix_seconds now0 = 1000" "Unix_seconds now1 = 1000"
  by (simp_all add: sample_clock Unix_seconds_def)

lemma sample_trunc:
  "trunc 700 = 700" "trunc 1300 = 1300" "trunc 1000 = 1000" "trunc 0 = 0"
  "trunc (2001 / 2) = 1000" "trunc 9223372036854774784 = 9223372036854774784"
  by (simp_all add: trunc_def floor_eq_iff)

lemma sample_int64:
  "int64 700 = 700" "int64 1300 = 1300" "int64 1000 = 1000" "int64 0 = 0"
  "int64 (2001 / 2) = 1000" "int64 9223372036854774784 = 9223372036854774784"
  by (simp_all add: int64_def sample_trunc)

lemma sample_int64_ok:
  "int64_ok 700" "int64_ok 1300" "int64_ok 1000" "int64_ok 0" "int64_ok (2001 / 2)"
  by (simp_all add: int64_ok_def sample_trunc)

lemma sample_times:
  "Before (time_Unix (int64 700) 0) now0"
  "Before now0 (time_Unix (int64 1300) 0)"
  "\<not> Before (time_Unix (int64 1300) 0) now0"
  "time_Unix (int64 1000) 0 = now0"
  "Before (time_Unix (int64 1000) 0) now1"
  "Before (time_Unix (int64 (2001 / 2)) 0) now1"
  "Before (time_Unix (int64 0) 0) now0"
  "Before (time_Unix (int64 9223372036854774784) 0) now0"
  by (simp_all add: Before_def sample_int64 sample_clock) (simp_all add: time_defs)

lemma FormValue_token_request: "FormValue (token_request s) ''challenge'' = s"
  by (simp add: FormValue_def token_request_def)

lemma sample_cache_verify_at:
  "t \<le> 1500000000000 \<Longrightarrow>
   cache_Get (keyCache sample_idp) t VerifyPublicKey = Some (RSAPublicKeyPtr (Some hydra_public))"
  by (simp add: sample_idp_def sample_cache_def cache_Set_def cache_Get_def NewIDP_def cache_New_def
      sample_config_def VerifyPublicKey_def ConsentPrivateKey_def cache_DefaultExpiration_def
      item_Expired_def time_defs Let_def)

lemma sample_keyFunc_at:
  "t \<le> 1500000000000 \<Longrightarrow>
   keyFunc sample_idp t (sample_token s ex au) = Done (RSAPublicKeyPtr (Some hydra_public), None)"
  by (simp add: keyFunc_def sample_token_def GetVerificationKey_def sample_cache_verify_at)

lemma sample_Claims:
  "Claims (sample_token s ex au) ''exp'' = ex"
  "Claims (sample_token s ex au) ''aud'' = au"
  "Claims (sample_token s ex au) ''redir'' = Some (VString ''https://app.example/cb'')"
  "Claims (sample_token s ex au) ''scp'' = Some (VSlice (map VString [''openid'', ''profile'']))"
  "Claims (sample_token s ex au) ''iat'' = None"
  "Claims (sample_token s ex au) ''nbf'' = None"
  by (simp_all add: sample_token_def sample_claims_def)

lemma verified_token [simp]:
  "Claims (verified tok) = Claims tok" "Valid (verified tok)"
  by (simp_all add: verified_def)

lemma sample_Claims_Valid:
  "MapClaims_Valid (Claims (sample_token s ex au)) t
     = (if verifyClaim verifyExp ex (Unix_seconds t) False then (None, [])
        else (Some (LibError ''Token is expired''), [ValidationErrorExpired]))"
  by (simp add: MapClaims_Valid_def sample_Claims claimFailure_def verifyClaim_def)

lemma sample_Parse_signed_at:
  assumes "sample_decode s = Some (sample_token s ex au, hydra_public)"
    and "t \<le> 1500000000000" and "verifyClaim verifyExp ex (Unix_seconds t) False"
  shows "jwt_Parse (sample_env_at t pub priv) s (keyFunc sample_idp t)
           = Done (Some (verified (sample_token s ex au)), None)"
  using assms
  by (simp add: sample_env_at_def sample_Parse_def sample_keyFunc_at sample_Claims_Valid)



lemma sample_decode_simps:
  "sample_decode ''good'' = Some (sample_token ''good'' (Some (VFloat64 1300)) (Some (VString ''app-1'')), hydra_public)"
  "sample_decode ''stale'' = Some (sample_token ''stale'' (Some (VFloat64 700)) (Some (VString ''app-1'')), hydra_public)"
  "sample_decode ''forged'' = Some (sample_token ''forged'' (Some (VFloat64 700)) (Some (VString ''app-1'')), other_public)"
  "sample_decode ''edge'' = Some (sample_token ''edge'' (Some (VFloat64 1000)) (Some (VString ''app-1'')), hydra_public)"
  "sample_decode ''noaud'' = Some (sample_token ''noaud'' (Some (VFloat64 1300)) None, hydra_public)"
  "sample_decode ''noexp'' = Some (sample_token ''noexp'' None (Some (VString ''app-1'')), hydra_public)"
  "sample_decode ''textexp'' = Some (sample_token ''textexp'' (Some (VString ''1300'')) (Some (VString ''app-1'')), hydra_public)"
  "sample_decode ''half'' = Some (sample_token ''half'' (Some (VFloat64 (2001 / 2))) (Some (VString ''app-1'')), hydra_public)"
  "sample_decode ''zero'' = Some (sample_token ''zero'' (Some (VFloat64 0)) (Some (VString ''app-1'')), hydra_public)"
  "sample_decode ''far'' = Some (sample_token ''far'' (Some (VFloat64 9223372036854774784)) (Some (VString ''app-1'')), hydra_public)"
  by (simp_all add: sample_decode_def)

lemma sample_exp_checks:
  "verifyClaim verifyExp (Some (VFloat64 1300)) 1000 False"
  "verifyClaim verifyExp (Some (VFloat64 1000)) 1000 False"
  "verifyClaim verifyExp (Some (VFloat64 (2001 / 2))) 1000 False"
  "verifyClaim verifyExp (Some (VFloat64 0)) 1000 False"
  "verifyClaim verifyExp (Some (VFloat64 9223372036854774784)) 1000 False"
  "verifyClaim verifyExp (Some (VString ''1300'')) 1000 False"
  "verifyClaim verifyExp None 1000 False"
  "\<not> verifyClaim verifyExp (Some (VFloat64 700)) 1000 False"
  by (simp_all add: verifyClaim_def verifyExp_def sample_int64)

lemma sample_early: "now0 \<le> 1500000000000" "now1 \<le> 1500000000000"
  by (simp_all add: sample_clock)

section \<open>Parsing and verifying a challenge\<close>

lemma getChallengeToken_accepts:
  "jwt_Parse E s (keyFunc idp now) = Done (Some tok, None) \<Longrightarrow> Valid tok \<Longrightarrow>
   getChallengeToken E idp now s = Done (Some tok, None)"
  by (simp add: getChallengeToken_def)

lemma sample_getChallengeToken_at:
  assumes "sample_decode s = Some (sample_token s ex au, hydra_public)"
    and "t \<le> 1500000000000" and "verifyClaim verifyExp ex (Unix_seconds t) False"
  shows "getChallengeToken (sample_env_at t pub priv) sample_idp t s
           = Done (Some (verified (sample_token s ex au)), None)"
  by (simp add: getChallengeToken_accepts sample_Parse_signed_at [OF assms])

lemma sample_getChallengeToken:
  assumes "sample_decode s = Some (sample_token s ex au, hydra_public)"
    and "verifyClaim verifyExp ex 1000 False"
  shows "getChallengeToken (sample_env pub priv) sample_idp now0 s
           = Done (Some (verified (sample_token s ex au)), None)"
  using sample_getChallengeToken_at [OF assms(1) sample_early(1), of pub priv] assms(2)
  by (simp add: sample_env_def sample_seconds)

lemma scopeStrings_strings: "scopeStrings (map VString ss) = Done ss"
  by (induction ss) simp_all

text \<open>
  C9. A request whose \<open>challenge\<close> form value is empty or absent makes
  \<open>NewChallenge\<close> return no Challenge and \<open>ErrorBadRequest\<close>. The result is the same for
  every parser, every endpoint and every cache (all are arbitrary here), so neither the
  network nor the key cache has a part in it.
\<close>

theorem NewChallenge_missing_token:
  "FormValue r ''challenge'' = [] \<Longrightarrow>
   NewChallenge E this idp now r user = Done (None, Some ErrorBadRequest)"
  by (simp add: NewChallenge_def)

theorem NewChallenge_missing_token_witness:
  "FormValue empty_request ''challenge'' = [] \<and>
   NewChallenge (sample_env ''public key set'' ''private key set'') 1 sample_idp now0
     empty_request ''alice'' = Done (None, Some ErrorBadRequest)"
proof -
  have h: "FormValue empty_request ''challenge'' = []"
    by (simp add: FormValue_def empty_request_def)
  show ?thesis
    using h NewChallenge_missing_token [OF h] by simp
qed




text \<open>
  C2, as the code has it. The claim gives a Challenge to every well-formed token that is
  signed with the active key and whose \<open>exp\<close> is strictly in the future, with
  \<open>Expires\<close> the time of \<open>exp\<close>. The code takes \<open>int64(exp)\<close>, the claim truncated to
  whole seconds, and hands it to \<open>time.Unix\<close>: an \<open>exp\<close> later in the current second
  is cut back to before the current time, and a number of seconds beyond what
  \<open>time.Unix\<close> represents wraps into the past. What holds: a token that the parser
  accepts under the key function of the facade (it is signed with the key whose public
  half is cached, and the parser reports it valid), whose \<open>exp\<close> is a number of seconds
  that \<open>time.Unix\<close> represents (\<open>int64_ok\<close>: truncated, it is at least \<open>-2^63\<close> and
  less than \<open>2^63 - 62135596800\<close>) and that, truncated to whole seconds, is strictly
  after the current time, whose \<open>aud\<close> and \<open>redir\<close> are strings and whose \<open>scp\<close> is
  a sequence of strings, gives a Challenge with \<open>Client\<close> the \<open>aud\<close> claim,
  \<open>Redirect\<close> the \<open>redir\<close> claim, \<open>Scopes\<close> the \<open>scp\<close> strings in their order,
  \<open>Expires\<close> the time of \<open>exp\<close> truncated to whole seconds, \<open>User\<close> the caller's
  argument, and no error.
\<close>

theorem NewChallenge_accepts:
  assumes "FormValue r ''challenge'' = s" and "s \<noteq> []"
    and "jwt_Parse E s (keyFunc idp now) = Done (Some tok, None)" and "Valid tok"
    and "Claims tok ''exp'' = Some (VFloat64 f)" and "int64_ok f"
    and "now < trunc f * 1000000000"
    and "Claims tok ''aud'' = Some (VString aud)"
    and "Claims tok ''redir'' = Some (VString redir)"
    and "Claims tok ''scp'' = Some (VSlice (map VString scopes))"
  shows "NewChallenge E this idp now r user =
           Done (Some \<lparr>Client = aud, Redirect = redir, User = user, Scopes = scopes,
                       Expires = trunc f * 1000000000, c_idp = Some this\<rparr>, None)"
proof -
  have t: "time_Unix (int64 f) 0 = trunc f * 1000000000"
    using assms(6) by (rule time_of_exp)
  with assms(7) have "\<not> Before (time_Unix (int64 f) 0) now"
    by (simp add: Before_def)
  with assms(1-5,8-10) t show ?thesis
    by (simp add: NewChallenge_def getChallengeToken_accepts scopeStrings_strings)
qed

theorem NewChallenge_accepts_witness:
  "jwt_Parse (sample_env ''public key set'' ''private key set'') ''good'' (keyFunc sample_idp now0)
     = Done (Some (verified (sample_token ''good'' (Some (VFloat64 1300)) (Some (VString ''app-1'')))), None)
   \<and> NewChallenge (sample_env ''public key set'' ''private key set'') 1 sample_idp now0
     (token_request ''good'') ''alice''
   = Done (Some \<lparr>Client = ''app-1'', Redirect = ''https://app.example/cb'', User = ''alice'',
                 Scopes = [''openid'', ''profile''], Expires = 1300 * 1000000000,
                 c_idp = Some 1\<rparr>, None)"
proof -
  let ?tok = "verified (sample_token ''good'' (Some (VFloat64 1300)) (Some (VString ''app-1'')))"
  have parse: "jwt_Parse (sample_env ''public key set'' ''private key set'') ''good''
                 (keyFunc sample_idp now0) = Done (Some ?tok, None)"
    unfolding sample_env_def
    by (rule sample_Parse_signed_at)
       (simp_all add: sample_decode_simps sample_early sample_seconds sample_exp_checks)
  have exp: "Claims ?tok ''exp'' = Some (VFloat64 1300)"
    and aud: "Claims ?tok ''aud'' = Some (VString ''app-1'')"
    and redir: "Claims ?tok ''redir'' = Some (VString ''https://app.example/cb'')"
    and scp: "Claims ?tok ''scp'' = Some (VSlice (map VString [''openid'', ''profile'']))"
    by (simp_all add: sample_Claims)
  have future: "now0 < trunc 1300 * 1000000000"
    by (simp add: sample_trunc sample_clock)
  show ?thesis
    using parse
      NewChallenge_accepts [OF FormValue_token_request _ parse _ exp sample_int64_ok(2) future
        aud redir scp, of 1 "''alice''"]
    by (simp add: sample_trunc)
qed

text \<open>
  The token \<open>half\<close> has an \<open>exp\<close> of 1000.5 s and is presented at 1000.2 s; the token
  \<open>far\<close> has an \<open>exp\<close> of \<open>2^63 - 1024\<close> s and is presented at 1000 s. Both are
  well-formed, signed with the cached key and accepted by the parser, and the \<open>exp\<close> of
  each is strictly after the current time: \<open>NewChallenge\<close> answers both with
  \<open>ErrorChallengeExpired\<close>.
\<close>

theorem NewChallenge_truncated_exp_counterexample:
  "getChallengeToken (sample_env_at now1 ''public key set'' ''private key set'') sample_idp now1 ''half''
     = Done (Some (verified (sample_token ''half'' (Some (VFloat64 (2001 / 2))) (Some (VString ''app-1'')))), None)
   \<and> of_int now1 < (2001 / 2 :: rat) * 1000000000
   \<and> NewChallenge (sample_env_at now1 ''public key set'' ''private key set'') 1 sample_idp now1
        (token_request ''half'') ''alice'' = Done (None, Some ErrorChallengeExpired)
   \<and> getChallengeToken (sample_env ''public key set'' ''private key set'') sample_idp now0 ''far''
     = Done (Some (verified (sample_token ''far'' (Some (VFloat64 9223372036854774784))
                              (Some (VString ''app-1'')))), None)
   \<and> of_int now0 < (9223372036854774784 :: rat) * 1000000000
   \<and> NewChallenge (sample_env ''public key set'' ''private key set'') 1 sample_idp now0
        (token_request ''far'') ''alice'' = Done (None, Some ErrorChallengeExpired)"
proof -
  have tok1: "getChallengeToken (sample_env_at now1 ''public key set'' ''private key set'')
                sample_idp now1 ''half''
              = Done (Some (verified (sample_token ''half'' (Some (VFloat64 (2001 / 2)))
                                       (Some (VString ''app-1'')))), None)"
    by (rule sample_getChallengeToken_at)
       (simp_all add: sample_decode_simps sample_early sample_seconds sample_exp_checks)
  have tok0: "getChallengeToken (sample_env ''public key set'' ''private key set'')
                sample_idp now0 ''far''
              = Done (Some (verified (sample_token ''far'' (Some (VFloat64 9223372036854774784))
                                       (Some (VString ''app-1'')))), None)"
    by (rule sample_getChallengeToken) (simp_all add: sample_decode_simps sample_exp_checks)
  have res1: "NewChallenge (sample_env_at now1 ''public key set'' ''private key set'') 1 sample_idp
                now1 (token_request ''half'') ''alice'' = Done (None, Some ErrorChallengeExpired)"
    by (simp add: NewChallenge_def FormValue_token_request tok1 sample_Claims sample_times)
  have res0: "NewChallenge (sample_env ''public key set'' ''private key set'') 1 sample_idp
                now0 (token_request ''far'') ''alice'' = Done (None, Some ErrorChallengeExpired)"
    by (simp add: NewChallenge_def FormValue_token_request tok0 sample_Claims sample_times)
  have future: "of_int now1 < (2001 / 2 :: rat) * 1000000000"
    "of_int now0 < (9223372036854774784 :: rat) * 1000000000"
    by (simp_all add: sample_clock)
  from tok1 res1 tok0 res0 future show ?thesis
    by simp
qed

text \<open>
  C4. The claim: a token that parses and verifies but whose claims are malformed makes
  \<open>NewChallenge\<close> return an error, never crash. The code asserts the type of each claim
  without the two-result form, so a missing \<open>aud\<close>, a missing \<open>exp\<close> and an \<open>exp\<close>
  that is a string each end the call in a run-time panic (an interface conversion), with
  no error returned. The three tokens below are accepted by the parser.
\<close>

theorem NewChallenge_malformed_claims_panic:
  "NewChallenge (sample_env ''public key set'' ''private key set'') 1 sample_idp now0
     (token_request ''noaud'') ''alice'' = Panic InterfaceConversion
   \<and> NewChallenge (sample_env ''public key set'' ''private key set'') 1 sample_idp now0
     (token_request ''noexp'') ''alice'' = Panic InterfaceConversion
   \<and> NewChallenge (sample_env ''public key set'' ''private key set'') 1 sample_idp now0
     (token_request ''textexp'') ''alice'' = Panic InterfaceConversion"
  by (simp add: NewChallenge_def FormValue_token_request sample_getChallengeToken
      sample_decode_simps sample_Claims sample_times(3) sample_exp_checks)

section \<open>Stored challenges and expiry\<close>

lemma sample_ChallengeStore: "ChallengeStore (config sample_idp) = sample_Store"
  by (simp add: sample_idp_def sample_config_def)

lemma sample_cookie_name: "SessionCookieName (sample_env pub priv) = ''challenge''"
  by (simp add: sample_env_def sample_env_at_def)

lemma sample_Store_simps:
  "sample_Store (cookie_request ''fresh'') ''challenge''
     = (session_with ''challenge'' (ChallengePtr (Some (sample_challenge (time_Unix 1300 0) None))), None)"
  "sample_Store (cookie_request ''stale'') ''challenge''
     = (session_with ''challenge'' (ChallengePtr (Some (sample_challenge (time_Unix 700 0) None))), None)"
  "sample_Store (cookie_request ''edge'') ''challenge''
     = (session_with ''challenge'' (ChallengePtr (Some (sample_challenge now0 None))), None)"
  "sample_Store (cookie_request ''text'') ''challenge''
     = (session_with ''challenge'' (VString ''not a challenge''), None)"
  "sample_Store (cookie_request ''garbage'') ''challenge''
     = (no_session, Some (LibError ''securecookie: the value is not valid''))"
  "sample_Store empty_request ''challenge'' = (no_session, None)"
  by (simp_all add: sample_Store_def cookie_request_def empty_request_def now0_def)

lemma session_Values:
  "Values no_session k = None"
  "Values (session_with name v) (VString name) = Some v"
  by (simp_all add: no_session_def session_with_def)

lemma sample_challenge_ref:
  "(sample_challenge t ref)\<lparr>c_idp := ref'\<rparr> = sample_challenge t ref'"
  "Expires (sample_challenge t ref) = t"
  by (simp_all add: sample_challenge_def)

lemma sample_NewChallenge_edge:
  "NewChallenge (sample_env ''public key set'' ''private key set'') 1 sample_idp now0
     (token_request ''edge'') ''alice'' = Done (Some (sample_challenge now0 (Some 1)), None)"
  by (simp add: NewChallenge_def FormValue_token_request sample_getChallengeToken
      sample_decode_simps sample_Claims sample_times(4) sample_exp_checks Before_def
      sample_challenge_def)

lemma sample_GetChallenge_edge:
  "GetChallenge (sample_env ''public key set'' ''private key set'') 1 sample_idp now0
     (cookie_request ''edge'') = Done (Some (sample_challenge now0 (Some 1)), None)"
  by (simp add: GetChallenge_def sample_ChallengeStore sample_cookie_name sample_Store_simps
      session_Values sample_challenge_ref Before_def)

lemma NewChallenge_not_before:
  "NewChallenge E this idp now r user = Done (Some c, e) \<Longrightarrow> now \<le> Expires c"
  by (auto simp: NewChallenge_def Let_def Before_def
      split: if_splits exec.splits prod.splits option.splits iface.splits)

lemma GetChallenge_not_before:
  "GetChallenge E this idp now r = Done (Some c, e) \<Longrightarrow> now \<le> Expires c"
  by (auto simp: GetChallenge_def Let_def Before_def
      split: if_splits exec.splits prod.splits option.splits iface.splits)

text \<open>
  C5, as the code has it. The claim says that a returned Challenge expires strictly after
  the current time and that one expiring exactly now is rejected. Both operations reject
  with \<open>Expires.Before(now)\<close>, which is false when the two are equal. What holds: every
  Challenge that \<open>NewChallenge\<close> or \<open>GetChallenge\<close> returns has an \<open>Expires\<close> that is
  not before the current time of the call; and a challenge whose expiry equals the
  current time exactly is not rejected as expired: \<open>NewChallenge\<close> does not answer a
  verified token of that expiry with \<open>ErrorChallengeExpired\<close>, and \<open>GetChallenge\<close>
  returns a stored Challenge of that expiry.
\<close>

theorem Challenge_not_expired:
  "(NewChallenge E this idp now r user = Done (Some c, e) \<longrightarrow> \<not> Before (Expires c) now)
   \<and> (GetChallenge E this idp now r = Done (Some c, e) \<longrightarrow> \<not> Before (Expires c) now)
   \<and> (FormValue r ''challenge'' \<noteq> []
        \<and> getChallengeToken E idp now (FormValue r ''challenge'') = Done (Some tok, None)
        \<and> Claims tok ''exp'' = Some (VFloat64 f) \<and> time_Unix (int64 f) 0 = now \<longrightarrow>
          NewChallenge E this idp now r user \<noteq> Done (None, Some ErrorChallengeExpired))
   \<and> (ChallengeStore (config idp) r (SessionCookieName E) = (session, None)
        \<and> Values session (VString (SessionCookieName E)) = Some (ChallengePtr (Some c'))
        \<and> Expires c' = now \<longrightarrow>
          GetChallenge E this idp now r = Done (Some (c'\<lparr>c_idp := Some this\<rparr>), None))"
proof -
  have 1: "NewChallenge E this idp now r user = Done (Some c, e) \<longrightarrow> \<not> Before (Expires c) now"
    using NewChallenge_not_before [of E this idp now r user c e] by (auto simp: Before_def)
  have 2: "GetChallenge E this idp now r = Done (Some c, e) \<longrightarrow> \<not> Before (Expires c) now"
    using GetChallenge_not_before [of E this idp now r c e] by (auto simp: Before_def)
  have 3: "FormValue r ''challenge'' \<noteq> []
        \<and> getChallengeToken E idp now (FormValue r ''challenge'') = Done (Some tok, None)
        \<and> Claims tok ''exp'' = Some (VFloat64 f) \<and> time_Unix (int64 f) 0 = now \<longrightarrow>
          NewChallenge E this idp now r user \<noteq> Done (None, Some ErrorChallengeExpired)"
    by (auto simp: NewChallenge_def Let_def Before_def
        split: exec.splits option.splits iface.splits)
  have 4: "ChallengeStore (config idp) r (SessionCookieName E) = (session, None)
        \<and> Values session (VString (SessionCookieName E)) = Some (ChallengePtr (Some c'))
        \<and> Expires c' = now \<longrightarrow>
          GetChallenge E this idp now r = Done (Some (c'\<lparr>c_idp := Some this\<rparr>), None)"
    by (simp add: GetChallenge_def Before_def)
  from 1 2 3 4 show ?thesis by blast
qed

theorem Challenge_not_expired_witness:
  "NewChallenge (sample_env ''public key set'' ''private key set'') 1 sample_idp now0
     (token_request ''edge'') ''alice'' = Done (Some (sample_challenge now0 (Some 1)), None)
   \<and> GetChallenge (sample_env ''public key set'' ''private key set'') 1 sample_idp now0
     (cookie_request ''edge'') = Done (Some (sample_challenge now0 (Some 1)), None)
   \<and> \<not> Before (Expires (sample_challenge now0 (Some 1))) now0
   \<and> NewChallenge (sample_env ''public key set'' ''private key set'') 1 sample_idp now0
     (token_request ''edge'') ''alice'' \<noteq> Done (None, Some ErrorChallengeExpired)"
proof -
  let ?E = "sample_env ''public key set'' ''private key set''"
  let ?tok = "verified (sample_token ''edge'' (Some (VFloat64 1000)) (Some (VString ''app-1'')))"
  note th = Challenge_not_expired [where E = ?E and this = 1 and idp = sample_idp and now = now0]
  have tok: "getChallengeToken ?E sample_idp now0 (FormValue (token_request ''edge'') ''challenge'')
               = Done (Some ?tok, None)"
    by (simp add: FormValue_token_request sample_getChallengeToken sample_decode_simps sample_exp_checks)
  have form: "FormValue (token_request ''edge'') ''challenge'' \<noteq> []"
    by (simp add: FormValue_token_request)
  have exp: "Claims ?tok ''exp'' = Some (VFloat64 1000)"
    by (simp add: sample_Claims)
  have store: "ChallengeStore (config sample_idp) (cookie_request ''edge'') (SessionCookieName ?E)
                 = (session_with ''challenge'' (ChallengePtr (Some (sample_challenge now0 None))), None)"
    by (simp add: sample_ChallengeStore sample_cookie_name sample_Store_simps)
  have val: "Values (session_with ''challenge'' (ChallengePtr (Some (sample_challenge now0 None))))
               (VString (SessionCookieName ?E)) = Some (ChallengePtr (Some (sample_challenge now0 None)))"
    by (simp add: sample_cookie_name session_Values)
  from th [where r = "token_request ''edge''" and user = "''alice''"
             and c = "sample_challenge now0 (Some 1)" and e = None]
       sample_NewChallenge_edge
  have a: "\<not> Before (Expires (sample_challenge now0 (Some 1))) now0"
    by blast
  from th [where r = "token_request ''edge''" and user = "''alice''" and tok = ?tok and f = 1000]
       form tok exp sample_times(4)
  have b: "NewChallenge ?E 1 sample_idp now0 (token_request ''edge'') ''alice''
             \<noteq> Done (None, Some ErrorChallengeExpired)"
    by blast
  from th [where r = "cookie_request ''edge''" and c' = "sample_challenge now0 None"
             and session = "session_with ''challenge'' (ChallengePtr (Some (sample_challenge now0 None)))"]
       store val
  have c: "GetChallenge ?E 1 sample_idp now0 (cookie_request ''edge'')
             = Done (Some (sample_challenge now0 (Some 1)), None)"
    by (simp add: sample_challenge_ref)
  from a b c sample_NewChallenge_edge show ?thesis by simp
qed

text \<open>
  The token \<open>edge\<close> and the session \<open>edge\<close> carry an expiry of 1000 s, the current
  time: both operations return the Challenge, whose \<open>Expires\<close> is not after now.
\<close>

theorem expiry_equal_counterexample:
  "NewChallenge (sample_env ''public key set'' ''private key set'') 1 sample_idp now0
     (token_request ''edge'') ''alice'' = Done (Some (sample_challenge now0 (Some 1)), None)
   \<and> GetChallenge (sample_env ''public key set'' ''private key set'') 1 sample_idp now0
     (cookie_request ''edge'') = Done (Some (sample_challenge now0 (Some 1)), None)
   \<and> \<not> now0 < Expires (sample_challenge now0 (Some 1))"
  using sample_NewChallenge_edge sample_GetChallenge_edge
  by (simp add: sample_challenge_ref)

text \<open>
  C7, as the code has it. The claim lists three outcomes for every request. The code
  first asks the session store, and when the store reports an error (a cookie it cannot
  decode, say) \<open>GetChallenge\<close> returns that error, whatever the session holds. What
  holds: when the store reports an error, that error is returned with no Challenge; when
  it reports none, a value that is absent or is not a \<open>*Challenge\<close> gives
  \<open>ErrorBadChallengeCookie\<close>, a stored Challenge whose \<open>Expires\<close> is before the current
  time gives \<open>ErrorChallengeExpired\<close>, and any other stored Challenge is returned, with
  its back-reference set to the facade. The expiry is checked on each call.
\<close>

theorem GetChallenge_outcomes:
  "(ChallengeStore (config idp) r (SessionCookieName E) = (session, Some err) \<longrightarrow>
      GetChallenge E this idp now r = Done (None, Some err))
   \<and> (ChallengeStore (config idp) r (SessionCookieName E) = (session, None) \<longrightarrow>
        (Values session (VString (SessionCookieName E)) = None \<longrightarrow>
           GetChallenge E this idp now r = Done (None, Some ErrorBadChallengeCookie))
      \<and> (Values session (VString (SessionCookieName E)) = Some v \<and> (\<forall>p. v \<noteq> ChallengePtr p) \<longrightarrow>
           GetChallenge E this idp now r = Done (None, Some ErrorBadChallengeCookie))
      \<and> (Values session (VString (SessionCookieName E)) = Some (ChallengePtr (Some c))
           \<and> Before (Expires c) now \<longrightarrow>
           GetChallenge E this idp now r = Done (None, Some ErrorChallengeExpired))
      \<and> (Values session (VString (SessionCookieName E)) = Some (ChallengePtr (Some c))
           \<and> \<not> Before (Expires c) now \<longrightarrow>
           GetChallenge E this idp now r = Done (Some (c\<lparr>c_idp := Some this\<rparr>), None)))"
  by (auto simp: GetChallenge_def split: iface.split)

theorem GetChallenge_outcomes_witness:
  "GetChallenge (sample_env ''public key set'' ''private key set'') 1 sample_idp now0
     (cookie_request ''garbage'') = Done (None, Some (LibError ''securecookie: the value is not valid''))
   \<and> GetChallenge (sample_env ''public key set'' ''private key set'') 1 sample_idp now0
     empty_request = Done (None, Some ErrorBadChallengeCookie)
   \<and> GetChallenge (sample_env ''public key set'' ''private key set'') 1 sample_idp now0
     (cookie_request ''text'') = Done (None, Some ErrorBadChallengeCookie)
   \<and> GetChallenge (sample_env ''public key set'' ''private key set'') 1 sample_idp now0
     (cookie_request ''stale'') = Done (None, Some ErrorChallengeExpired)
   \<and> GetChallenge (sample_env ''public key set'' ''private key set'') 1 sample_idp now0
     (cookie_request ''fresh'') = Done (Some (sample_challenge (time_Unix 1300 0) (Some 1)), None)"
proof -
  let ?E = "sample_env ''public key set'' ''private key set''"
  note ev = sample_ChallengeStore sample_cookie_name sample_Store_simps session_Values
    sample_challenge_ref
  have past: "Before (time_Unix 700 0) now0" and future: "\<not> Before (time_Unix 1300 0) now0"
    by (simp_all add: Before_def time_defs now0_def)
  have 1: "GetChallenge ?E 1 sample_idp now0 (cookie_request ''garbage'')
             = Done (None, Some (LibError ''securecookie: the value is not valid''))"
    using GetChallenge_outcomes [where idp = sample_idp and r = "cookie_request ''garbage''"
        and E = ?E and session = no_session and this = 1 and now = now0
        and err = "LibError ''securecookie: the value is not valid''"]
    by (simp add: ev)
  have 2: "GetChallenge ?E 1 sample_idp now0 empty_request = Done (None, Some ErrorBadChallengeCookie)"
    using GetChallenge_outcomes [where idp = sample_idp and r = empty_request
        and E = ?E and session = no_session and this = 1 and now = now0]
    by (simp add: ev)
  have 3: "GetChallenge ?E 1 sample_idp now0 (cookie_request ''text'') = Done (None, Some ErrorBadChallengeCookie)"
    using GetChallenge_outcomes [where idp = sample_idp and r = "cookie_request ''text''"
        and E = ?E and this = 1 and now = now0 and v = "VString ''not a challenge''"
        and session = "session_with ''challenge'' (VString ''not a challenge'')"]
    by (simp add: ev)
  have 4: "GetChallenge ?E 1 sample_idp now0 (cookie_request ''stale'') = Done (None, Some ErrorChallengeExpired)"
    using past GetChallenge_outcomes [where idp = sample_idp and r = "cookie_request ''stale''"
        and E = ?E and this = 1 and now = now0 and c = "sample_challenge (time_Unix 700 0) None"
        and session = "session_with ''challenge'' (ChallengePtr (Some (sample_challenge (time_Unix 700 0) None)))"]
    by (simp add: ev)
  have 5: "GetChallenge ?E 1 sample_idp now0 (cookie_request ''fresh'')
             = Done (Some (sample_challenge (time_Unix 1300 0) (Some 1)), None)"
    using future GetChallenge_outcomes [where idp = sample_idp and r = "cookie_request ''fresh''"
        and E = ?E and this = 1 and now = now0 and c = "sample_challenge (time_Unix 1300 0) None"
        and session = "session_with ''challenge'' (ChallengePtr (Some (sample_challenge (time_Unix 1300 0) None)))"]
    by (simp add: ev)
  from 1 2 3 4 5 show ?thesis by simp
qed

text \<open>
  The cookie \<open>garbage\<close> is one the store cannot decode: the store reports an error and a
  session with no value, and \<open>GetChallenge\<close> returns the store's error, not
  \<open>ErrorBadChallengeCookie\<close>.
\<close>

theorem GetChallenge_store_error_counterexample:
  "ChallengeStore (config sample_idp) (cookie_request ''garbage'')
       (SessionCookieName (sample_env ''public key set'' ''private key set''))
     = (no_session, Some (LibError ''securecookie: the value is not valid''))
   \<and> Values no_session
        (VString (SessionCookieName (sample_env ''public key set'' ''private key set''))) = None
   \<and> GetChallenge (sample_env ''public key set'' ''private key set'') 1 sample_idp now0
        (cookie_request ''garbage'')
      = Done (None, Some (LibError ''securecookie: the value is not valid''))
   \<and> GetChallenge (sample_env ''public key set'' ''private key set'') 1 sample_idp now0
        (cookie_request ''garbage'')
      \<noteq> Done (None, Some ErrorBadChallengeCookie)"
  by (simp add: GetChallenge_def sample_ChallengeStore sample_cookie_name sample_Store_simps
      session_Values)

section \<open>The key cache and its readers\<close>

text \<open>
  C6. For every state of the cache and every time, \<open>GetVerificationKey\<close> and
  \<open>GetConsentKey\<close> return, without panicking, exactly the outcome that the lookup of
  their role decides: \<open>ErrorNoKey\<close> when the cache finds no entry, the cached key and
  no error when the entry holds a key of the operation's type (an RSA public key for
  \<open>GetVerificationKey\<close>, an RSA private key for \<open>GetConsentKey\<close>), and
  \<open>ErrorBadKey\<close> when it holds a value of any other type.
\<close>

theorem cached_key_outcomes:
  "(case cache_Get (keyCache idp) now VerifyPublicKey of
      None \<Rightarrow> GetVerificationKey idp now = Done (None, Some ErrorNoKey)
    | Some (RSAPublicKeyPtr key) \<Rightarrow> GetVerificationKey idp now = Done (key, None)
    | Some _ \<Rightarrow> GetVerificationKey idp now = Done (None, Some ErrorBadKey))
   \<and> (case cache_Get (keyCache idp) now ConsentPrivateKey of
      None \<Rightarrow> GetConsentKey idp now = Done (None, Some ErrorNoKey)
    | Some (RSAPrivateKeyPtr key) \<Rightarrow> GetConsentKey idp now = Done (key, None)
    | Some _ \<Rightarrow> GetConsentKey idp now = Done (None, Some ErrorBadKey))"
  by (simp add: GetVerificationKey_def GetConsentKey_def split: option.split iface.split)

section \<open>Fetching keys\<close>

lemma sample_env_fields:
  "http_Get (sample_env pub priv) = sample_Get pub priv"
  "gojwk_Unmarshal (sample_env pub priv) = sample_Unmarshal"
  "DecodePublicKey (sample_env pub priv) = sample_DecodePublicKey"
  "DecodePrivateKey (sample_env pub priv) = sample_DecodePrivateKey"
  "credentials_Token (sample_env pub priv) = (\<lambda>c. Inr ''access token'')"
  by (simp_all add: sample_env_def sample_env_at_def)

lemma sample_getKey_public:
  assumes "client idp = Some c" and "HydraAddress (config idp) = ''https://hydra''"
  shows "getKey (sample_env pub priv) idp ''consent.challenge'' ''public''
         = (if pub = [] then Done (None, Some (LibError ''connection refused''))
            else case sample_Unmarshal pub of
                   Inl err \<Rightarrow> Done (None, Some err)
                 | Inr key \<Rightarrow> (case Keys key of [] \<Rightarrow> Panic IndexOutOfRange | k # ks \<Rightarrow> Done (k, None)))"
  using assms
  by (simp add: getKey_def sample_env_fields sample_Get_def ioutil_ReadAll_def)

lemma sample_getKey_private:
  assumes "client idp = Some c" and "HydraAddress (config idp) = ''https://hydra''"
  shows "getKey (sample_env pub priv) idp ''consent.endpoint'' ''private''
         = (if priv = [] then Done (None, Some (LibError ''connection refused''))
            else case sample_Unmarshal priv of
                   Inl err \<Rightarrow> Done (None, Some err)
                 | Inr key \<Rightarrow> (case Keys key of [] \<Rightarrow> Panic IndexOutOfRange | k # ks \<Rightarrow> Done (k, None)))"
  using assms
  by (simp add: getKey_def sample_env_fields sample_Get_def ioutil_ReadAll_def)

lemma sample_Unmarshal_simps:
  "sample_Unmarshal ''public key set'' = Inr (Key [Some (Key [] ''RSA'' 3233)] [] 0)"
  "sample_Unmarshal ''private key set'' = Inr (Key [Some (Key [] ''RSA'' 8633)] [] 0)"
  "sample_Unmarshal ''empty key set'' = Inr (Key [] [] 0)"
  by (simp_all add: sample_Unmarshal_def)

lemma sample_getVerificationKey:
  assumes "client idp = Some c" and "HydraAddress (config idp) = ''https://hydra''"
  shows "getVerificationKey (sample_env ''public key set'' priv) idp = Done (Some hydra_public, None)"
    and "getVerificationKey (sample_env [] priv) idp = Done (None, Some (LibError ''connection refused''))"
    and "getVerificationKey (sample_env ''empty key set'' priv) idp = Panic IndexOutOfRange"
  by (simp_all add: getVerificationKey_def sample_getKey_public [OF assms] sample_Unmarshal_simps
      sample_env_fields sample_DecodePublicKey_def hydra_public_def)

lemma sample_getConsentKey:
  assumes "client idp = Some c" and "HydraAddress (config idp) = ''https://hydra''"
  shows "getConsentKey (sample_env pub ''private key set'') idp = Done (Some hydra_private, None)"
    and "getConsentKey (sample_env pub []) idp = Done (None, Some (LibError ''connection refused''))"
    and "getConsentKey (sample_env pub ''empty key set'') idp = Panic IndexOutOfRange"
  by (simp_all add: getConsentKey_def sample_getKey_private [OF assms] sample_Unmarshal_simps
      sample_env_fields sample_DecodePrivateKey_def hydra_private_def)

lemma sample_idp_client:
  "client sample_idp = Some sample_client"
  "HydraAddress (config sample_idp) = ''https://hydra''"
  by (simp_all add: sample_idp_def sample_config_def)

lemma fresh_idp_client:
  "client fresh_idp = Some sample_client"
  "HydraAddress (config fresh_idp) = ''https://hydra''"
  by (simp_all add: fresh_idp_def sample_idp_client)

lemma swept_idp_client:
  "client swept_idp = Some sample_client"
  "HydraAddress (config swept_idp) = ''https://hydra''"
  by (simp_all add: swept_idp_def sample_idp_client)

text \<open>
  C3. The claim: whatever the key-publishing endpoint answers, a key set with no keys
  included, the fetch returns an error and does not crash. The code returns the
  transport error and the decoding error, and then takes \<open>key.Keys[0]\<close> with no check
  of the length: on a document that decodes to a key set with no keys, \<open>getKey\<close>
  panics (index out of range), and so do \<open>getVerificationKey\<close> and \<open>getConsentKey\<close>.
  Here the endpoint answers 200 with such a document for both key sets.
\<close>

theorem getKey_empty_key_set_panics:
  "http_Get (sample_env ''empty key set'' ''empty key set'') sample_client
       ''https://hydra/keys/consent.challenge/public''
     = Inr \<lparr>StatusCode = 200, Body = Inr ''empty key set''\<rparr>
   \<and> gojwk_Unmarshal (sample_env ''empty key set'' ''empty key set'') ''empty key set''
     = Inr (Key [] [] 0)
   \<and> getKey (sample_env ''empty key set'' ''empty key set'') sample_idp
        ''consent.challenge'' ''public'' = Panic IndexOutOfRange
   \<and> getVerificationKey (sample_env ''empty key set'' ''empty key set'') sample_idp
        = Panic IndexOutOfRange
   \<and> getConsentKey (sample_env ''empty key set'' ''empty key set'') sample_idp
        = Panic IndexOutOfRange"
  by (simp add: sample_getVerificationKey [OF sample_idp_client]
      sample_getConsentKey [OF sample_idp_client] sample_getKey_public [OF sample_idp_client]
      sample_env_fields sample_Get_def sample_Unmarshal_simps)

section \<open>Priming the cache\<close>

lemma login_keyCache: "login E idp = (idp1, e) \<Longrightarrow> keyCache idp1 = keyCache idp"
  by (auto simp: login_def Let_def split: sum.splits)

lemma sample_login: "login (sample_env pub priv) (NewIDP sample_config) = (fresh_idp, None)"
  by (simp add: login_def sample_env_fields NewIDP_def fresh_idp_def sample_idp_def
      sample_config_def sample_client_def)

text \<open>
  C10. When the login of \<open>Connect\<close> succeeds and the fetch of the verification key
  returns an error, or that fetch succeeds and the fetch of the consent key returns an
  error, \<open>Connect\<close> returns that error and the key cache is the one it was before the
  call: both entries are written only after both fetches have succeeded.
\<close>

theorem Connect_all_or_nothing:
  assumes "login E idp = (idp1, None)"
    and "getVerificationKey E idp1 = Done (verifyKey, Some err)
         \<or> (getVerificationKey E idp1 = Done (verifyKey, None)
             \<and> getConsentKey E idp1 = Done (consentKey, Some err))"
  shows "Connect E idp now = Done (idp1, Some err) \<and> keyCache idp1 = keyCache idp"
  using assms login_keyCache [of E idp idp1 None]
  by (auto simp: Connect_def)

theorem Connect_all_or_nothing_witness:
  "Connect (sample_env [] ''private key set'') (NewIDP sample_config) now0
     = Done (fresh_idp, Some (LibError ''connection refused''))
   \<and> Connect (sample_env ''public key set'' []) (NewIDP sample_config) now0
     = Done (fresh_idp, Some (LibError ''connection refused''))
   \<and> keyCache fresh_idp = keyCache (NewIDP sample_config)"
proof -
  have v_fail: "getVerificationKey (sample_env [] ''private key set'') fresh_idp
                  = Done (None, Some (LibError ''connection refused''))"
    by (rule sample_getVerificationKey [OF fresh_idp_client])
  have v_ok: "getVerificationKey (sample_env ''public key set'' []) fresh_idp
                  = Done (Some hydra_public, None)"
    by (rule sample_getVerificationKey [OF fresh_idp_client])
  have c_fail: "getConsentKey (sample_env ''public key set'' []) fresh_idp
                  = Done (None, Some (LibError ''connection refused''))"
    by (rule sample_getConsentKey [OF fresh_idp_client])
  from Connect_all_or_nothing [OF sample_login disjI1, OF v_fail, of now0]
       Connect_all_or_nothing [OF sample_login disjI2, OF conjI, OF v_ok c_fail, of now0]
  show ?thesis by simp
qed

section \<open>Refreshing a key on eviction\<close>

lemma evicted_absent:
  "cache_Evicted c now k \<Longrightarrow> cache_Get (cache_DeleteExpired c now) t k = None"
  by (auto simp: cache_Evicted_def cache_DeleteExpired_def cache_Get_def split: option.splits)

lemma cache_Set_default_item:
  "items (cache_Set c now k x cache_DefaultExpiration) k
     = Some \<lparr>Object = x,
             Expiration = (if 0 < defaultExpiration c then now + defaultExpiration c else 0)\<rparr>"
  by (simp add: cache_Set_def Let_def)

lemma cache_Set_Get: "cache_Get (cache_Set c now k x d) now k = Some x"
  by (simp add: cache_Set_def cache_Get_def item_Expired_def Let_def)

lemma roles_differ: "ConsentPrivateKey \<noteq> VerifyPublicKey"
  by (simp add: ConsentPrivateKey_def VerifyPublicKey_def)

lemma sample_cache_items:
  "items sample_cache VerifyPublicKey
     = Some \<lparr>Object = RSAPublicKeyPtr (Some hydra_public), Expiration = time_Unix 1500 0\<rparr>"
  "items sample_cache ConsentPrivateKey
     = Some \<lparr>Object = RSAPrivateKeyPtr (Some hydra_private), Expiration = time_Unix 1500 0\<rparr>"
  "defaultExpiration sample_cache = 600000000000"
  by (simp_all add: sample_cache_def cache_Set_def NewIDP_def cache_New_def sample_config_def
      VerifyPublicKey_def ConsentPrivateKey_def cache_DefaultExpiration_def time_defs Let_def)

lemma sample_cache_evicted:
  "cache_Evicted sample_cache (time_Unix 2000 0) VerifyPublicKey"
  "cache_Evicted sample_cache (time_Unix 2000 0) ConsentPrivateKey"
  by (simp_all add: cache_Evicted_def sample_cache_items item_Expired_def time_defs)

lemma swept_idp_cache:
  "keyCache swept_idp = cache_DeleteExpired sample_cache (time_Unix 2000 0)"
  "defaultExpiration (keyCache swept_idp) = 600000000000"
  by (simp_all add: swept_idp_def cache_DeleteExpired_def sample_cache_items)

text \<open>
  C8. The handler registered for evictions calls \<open>refreshKeyCache\<close> with the evicted
  key. When the entry of a role has expired and the sweep has removed it: if the fetch
  of that role's key returns an error, the handler leaves the facade as it is, and the
  cache finds nothing under the role at any time \<open>t\<close> (until something writes it
  again); if the fetch returns a key, the handler stores it under the role with the
  default duration of the cache (expiry at \<open>now\<close> plus that duration when it is
  positive, none otherwise), and the cache finds it. For a key that is neither role
  name the handler changes nothing.
\<close>

theorem refreshKeyCache_on_eviction:
  "onEvicted E idp now key value = refreshKeyCache E idp now key
   \<and> (cache_Evicted c now VerifyPublicKey \<and> keyCache idp = cache_DeleteExpired c now
      \<and> getVerificationKey E idp = Done (verifyKey, Some err) \<longrightarrow>
        refreshKeyCache E idp now VerifyPublicKey = Done idp
        \<and> cache_Get (keyCache idp) t VerifyPublicKey = None)
   \<and> (cache_Evicted c now ConsentPrivateKey \<and> keyCache idp = cache_DeleteExpired c now
      \<and> getConsentKey E idp = Done (consentKey, Some err) \<longrightarrow>
        refreshKeyCache E idp now ConsentPrivateKey = Done idp
        \<and> cache_Get (keyCache idp) t ConsentPrivateKey = None)
   \<and> (getVerificationKey E idp = Done (verifyKey, None) \<longrightarrow>
        refreshKeyCache E idp now VerifyPublicKey
          = Done (idp\<lparr>keyCache := cache_Set (keyCache idp) now VerifyPublicKey
                                     (RSAPublicKeyPtr verifyKey) cache_DefaultExpiration\<rparr>)
        \<and> items (cache_Set (keyCache idp) now VerifyPublicKey
                   (RSAPublicKeyPtr verifyKey) cache_DefaultExpiration) VerifyPublicKey
          = Some \<lparr>Object = RSAPublicKeyPtr verifyKey,
                  Expiration = (if 0 < defaultExpiration (keyCache idp)
                                then now + defaultExpiration (keyCache idp) else 0)\<rparr>
        \<and> cache_Get (cache_Set (keyCache idp) now VerifyPublicKey
                   (RSAPublicKeyPtr verifyKey) cache_DefaultExpiration) now VerifyPublicKey
          = Some (RSAPublicKeyPtr verifyKey))
   \<and> (getConsentKey E idp = Done (consentKey, None) \<longrightarrow>
        refreshKeyCache E idp now ConsentPrivateKey
          = Done (idp\<lparr>keyCache := cache_Set (keyCache idp) now ConsentPrivateKey
                                     (RSAPrivateKeyPtr consentKey) cache_DefaultExpiration\<rparr>)
        \<and> items (cache_Set (keyCache idp) now ConsentPrivateKey
                   (RSAPrivateKeyPtr consentKey) cache_DefaultExpiration) ConsentPrivateKey
          = Some \<lparr>Object = RSAPrivateKeyPtr consentKey,
                  Expiration = (if 0 < defaultExpiration (keyCache idp)
                                then now + defaultExpiration (keyCache idp) else 0)\<rparr>
        \<and> cache_Get (cache_Set (keyCache idp) now ConsentPrivateKey
                   (RSAPrivateKeyPtr consentKey) cache_DefaultExpiration) now ConsentPrivateKey
          = Some (RSAPrivateKeyPtr consentKey))
   \<and> (key \<noteq> VerifyPublicKey \<and> key \<noteq> ConsentPrivateKey \<longrightarrow>
        refreshKeyCache E idp now key = Done idp)"
  by (simp add: onEvicted_def refreshKeyCache_def roles_differ evicted_absent
      cache_Set_default_item cache_Set_Get)

theorem refreshKeyCache_on_eviction_witness:
  "refreshKeyCache (sample_env [] []) swept_idp (time_Unix 2000 0) VerifyPublicKey = Done swept_idp
   \<and> cache_Get (keyCache swept_idp) (time_Unix 3000 0) VerifyPublicKey = None
   \<and> refreshKeyCache (sample_env [] []) swept_idp (time_Unix 2000 0) ConsentPrivateKey = Done swept_idp
   \<and> cache_Get (keyCache swept_idp) (time_Unix 3000 0) ConsentPrivateKey = None
   \<and> items (cache_Set (keyCache swept_idp) (time_Unix 2000 0) VerifyPublicKey
               (RSAPublicKeyPtr (Some hydra_public)) cache_DefaultExpiration) VerifyPublicKey
     = Some \<lparr>Object = RSAPublicKeyPtr (Some hydra_public), Expiration = time_Unix 2600 0\<rparr>
   \<and> items (cache_Set (keyCache swept_idp) (time_Unix 2000 0) ConsentPrivateKey
               (RSAPrivateKeyPtr (Some hydra_private)) cache_DefaultExpiration) ConsentPrivateKey
     = Some \<lparr>Object = RSAPrivateKeyPtr (Some hydra_private), Expiration = time_Unix 2600 0\<rparr>
   \<and> refreshKeyCache (sample_env [] []) sample_idp (time_Unix 2000 0) ''session'' = Done sample_idp"
proof -
  let ?now = "time_Unix 2000 0"
  have v_fail: "getVerificationKey (sample_env [] []) swept_idp
                  = Done (None, Some (LibError ''connection refused''))"
    by (rule sample_getVerificationKey [OF swept_idp_client])
  have c_fail: "getConsentKey (sample_env [] []) swept_idp
                  = Done (None, Some (LibError ''connection refused''))"
    by (rule sample_getConsentKey [OF swept_idp_client])
  have v_ok: "getVerificationKey (sample_env ''public key set'' ''private key set'') swept_idp
                  = Done (Some hydra_public, None)"
    by (rule sample_getVerificationKey [OF swept_idp_client])
  have c_ok: "getConsentKey (sample_env ''public key set'' ''private key set'') swept_idp
                  = Done (Some hydra_private, None)"
    by (rule sample_getConsentKey [OF swept_idp_client])
  have other: "''session'' \<noteq> VerifyPublicKey \<and> ''session'' \<noteq> ConsentPrivateKey"
    by (simp add: VerifyPublicKey_def ConsentPrivateKey_def)
  have t: "time_Unix 2000 0 + 600000000000 = time_Unix 2600 0"
    by (simp add: time_defs)
  note th = refreshKeyCache_on_eviction [where c = sample_cache and now = ?now and idp = swept_idp]
  from th [where E = "sample_env [] []" and verifyKey = None and consentKey = None
               and err = "LibError ''connection refused''" and t = "time_Unix 3000 0"]
       sample_cache_evicted swept_idp_cache(1) v_fail c_fail
  have fail: "refreshKeyCache (sample_env [] []) swept_idp ?now VerifyPublicKey = Done swept_idp
              \<and> cache_Get (keyCache swept_idp) (time_Unix 3000 0) VerifyPublicKey = None
              \<and> refreshKeyCache (sample_env [] []) swept_idp ?now ConsentPrivateKey = Done swept_idp
              \<and> cache_Get (keyCache swept_idp) (time_Unix 3000 0) ConsentPrivateKey = None"
    by blast
  from th [where E = "sample_env ''public key set'' ''private key set''"
               and verifyKey = "Some hydra_public" and consentKey = "Some hydra_private"]
       v_ok c_ok
  have ok: "items (cache_Set (keyCache swept_idp) ?now VerifyPublicKey
                     (RSAPublicKeyPtr (Some hydra_public)) cache_DefaultExpiration) VerifyPublicKey
              = Some \<lparr>Object = RSAPublicKeyPtr (Some hydra_public),
                      Expiration = (if 0 < defaultExpiration (keyCache swept_idp)
                                    then ?now + defaultExpiration (keyCache swept_idp) else 0)\<rparr>
            \<and> items (cache_Set (keyCache swept_idp) ?now ConsentPrivateKey
                     (RSAPrivateKeyPtr (Some hydra_private)) cache_DefaultExpiration) ConsentPrivateKey
              = Some \<lparr>Object = RSAPrivateKeyPtr (Some hydra_private),
                      Expiration = (if 0 < defaultExpiration (keyCache swept_idp)
                                    then ?now + defaultExpiration (keyCache swept_idp) else 0)\<rparr>"
    by blast
  from refreshKeyCache_on_eviction [where key = "''session''" and idp = sample_idp
          and E = "sample_env [] []" and now = ?now] other
  have noop: "refreshKeyCache (sample_env [] []) sample_idp ?now ''session'' = Done sample_idp"
    by blast
  from fail ok noop show ?thesis
    by (simp add: swept_idp_cache(2) t)
qed

end
